theory Spec2Isabelle
  imports Complex_Main
begin

section \<open>Strings\<close>

text \<open>
  A message is a Python \<open>str\<close>. It is modelled as a \<open>string\<close> whose characters are
  the code points below 256, so \<open>length\<close> counts code points as \<open>len\<close> does.
  \<open>str.isspace\<close>, \<open>str.lower\<close> and \<open>str.strip\<close> are written out for that range.
\<close>

definition isspace :: "char \<Rightarrow> bool" where
  "isspace c = (let n = (of_char c :: nat) in
     (9 \<le> n \<and> n \<le> 13) \<or> (28 \<le> n \<and> n \<le> 32) \<or> n = 133 \<or> n = 160)"

definition lower_char :: "char \<Rightarrow> char" where
  "lower_char c = (let n = (of_char c :: nat) in
     if (65 \<le> n \<and> n \<le> 90) \<or> (192 \<le> n \<and> n \<le> 222 \<and> n \<noteq> 215)
     then char_of (n + 32) else c)"

definition lower :: "string \<Rightarrow> string" where
  "lower s = map lower_char s"

definition strip :: "string \<Rightarrow> string" where
  "strip s = rev (dropWhile isspace (rev (dropWhile isspace s)))"

text \<open>\<open>starts_with k s\<close>: \<open>s.startswith(k)\<close>; \<open>is_in k s\<close>: the test \<open>k in s\<close>.\<close>

fun starts_with :: "string \<Rightarrow> string \<Rightarrow> bool" where
  "starts_with [] s = True"
| "starts_with (a # k) [] = False"
| "starts_with (a # k) (c # s) = (a = c \<and> starts_with k s)"

fun is_in :: "string \<Rightarrow> string \<Rightarrow> bool" where
  "is_in k [] = (k = [])"
| "is_in k (c # s) = (starts_with k (c # s) \<or> is_in k s)"

text \<open>\<open>join sep xs\<close>: \<open>sep.join(xs)\<close>.\<close>

fun join :: "string \<Rightarrow> string list \<Rightarrow> string" where
  "join sep [] = []"
| "join sep [x] = x"
| "join sep (x # y # xs) = x @ sep @ join sep (y # xs)"

section \<open>The keyword database\<close>

text \<open>
  The lists of \<open>CRISIS_KEYWORDS\<close> and \<open>METAPHORICAL_CONTEXTS\<close>, in the order of the
  source. In the \<open>MEDIUM\<close> english list the source has no comma after
  \<open>'too much to handle'\<close>, so that literal and \<open>'nobody care'\<close> are one phrase.
\<close>


definition CRITICAL_english :: "string list" where
  "CRITICAL_english = [
    ''kill myself'', ''commit suicide'', ''end my life'', ''take my life'',
    ''suicide plan'', ''how to die'', ''way to die'', ''end it all'',
    ''be off dead'', ''world without I'', ''say goodbye'',
    ''final goodbye'', ''last message'', ''no reason to live'',
    ''want to die'', ''go to die'', ''plan to die'', ''hang myself'',
    ''overdose'', ''jump off'', ''no reason to live'', ''buy pill'',
    ''write note'', ''final arrangement'', ''feel unstable'']"

definition CRITICAL_pidgin :: "string list" where
  "CRITICAL_pidgin = [
    ''i wan die'', ''make i just die'', ''i go kill myself'',
    ''make i comot for this world'', ''i don taya for life'',
    ''nothing dey for me again'', ''i fit just end am'',
    ''make i just finish am'', ''i go end myself'', ''wan kpai'',
    ''kpai myself'']"

definition HIGH_english :: "string list" where
  "HIGH_english = [
    ''hurt myself'', ''cut myself'', ''harm myself'', ''self harm'',
    ''burn myself'', ''punish myself'', ''hate myself'', ''deserve pain'',
    ''want to hurt'', ''no point live'', ''life be meaningless'',
    ''can not go on'', ''give up everything'', ''nothing matter'',
    ''no hope leave'', ''everyone hate I'', ''burden to everyone'',
    ''world hate I'', ''disappear forever'', ''run away forever'',
    ''leave forever'', ''can not do this anymore'',
    ''can not take it anymore'', ''everybody good without I'',
    ''waste of space'', ''can't go on'', ''no hope'',
    ''give up everything'', ''everyone hates me'', ''worthless'',
    ''hurt myself'', ''self harm'', ''cut myself'',
    ''this country don finish me'', ''nobody go miss me'']"

definition HIGH_pidgin :: "string list" where
  "HIGH_pidgin = [
    ''nobody go miss me'', ''this country don finish me'',
    ''i no fit continue'', ''wahala too much abeg'',
    ''make i just disappear'', ''person wey born me no happy'']"

definition MEDIUM_english :: "string list" where
  "MEDIUM_english = [
    ''feel hopeless'', ''very depressed'', ''extremely anxious'',
    ''panic attack'', ''can not cope'', ''overwhelm completely'',
    ''tired of try'', ''nothing work'', ''give up'',
    ''do not want to wake up'', ''wish i be not here'',
    ''wish i could sleep forever'', ''tired of life'', ''feel hopeless'',
    ''very depressed'', ''extremely anxious'', ''panic attack'',
    ''can't cope'', ''overwhelmed'', ''nothing matters'',
    ''tired of trying'', ''too much to handlenobody care'', ''all alone'',
    ''no one understand'', ''push everyone away'', ''isolate myself'',
    ''nobody listen'', ''invisible to everyone'']"

definition MEDIUM_pidgin :: "string list" where
  "MEDIUM_pidgin = [
    ''this life no balance'', ''e don do for me'',
    ''wetin i dey do for this world'', ''i don tire'']"

definition METAPHOR_academic :: "string list" where
  "METAPHOR_academic = [
    ''exam'', ''test'', ''assignment'', ''deadline'', ''interview'',
    ''presentation'', ''project'', ''quiz'', ''homework'', ''study'']"

definition METAPHOR_entertainment :: "string list" where
  "METAPHOR_entertainment = [
    ''movie'', ''film'', ''show'', ''game'', ''video'', ''song'', ''book'',
    ''story'', ''comedy'', ''funny'', ''laugh'']"

definition METAPHOR_positive :: "string list" where
  "METAPHOR_positive = [
    ''excited'', ''can not wait'', ''look forward'', ''eager'',
    ''thrilled'', ''amazing'', ''wonderful'', ''great'']"

definition METAPHOR_figurative :: "string list" where
  "METAPHOR_figurative = [
    ''die to see'', ''kill I'', ''to die for'', ''dead tired'',
    ''kill it'', ''slay'', ''murder'', ''destroy'']"

text \<open>
  Both dictionaries keep their insertion order (\<open>.items()\<close> iterates in it), so they
  are association lists. A tier is one of the four strings \<open>'SAFE'\<close>, \<open>'MEDIUM'\<close>,
  \<open>'HIGH'\<close>, \<open>'CRITICAL'\<close>: a datatype, printed by \<open>risk_str\<close>.
\<close>

datatype risk = SAFE | MEDIUM | HIGH | CRITICAL

fun risk_str :: "risk \<Rightarrow> string" where
  "risk_str SAFE = ''SAFE''"
| "risk_str MEDIUM = ''MEDIUM''"
| "risk_str HIGH = ''HIGH''"
| "risk_str CRITICAL = ''CRITICAL''"

definition CRISIS_KEYWORDS :: "(risk \<times> (string \<times> string list) list) list" where
  "CRISIS_KEYWORDS = [
     (CRITICAL, [(''english'', CRITICAL_english), (''pidgin'', CRITICAL_pidgin)]),
     (HIGH, [(''english'', HIGH_english), (''pidgin'', HIGH_pidgin)]),
     (MEDIUM, [(''english'', MEDIUM_english), (''pidgin'', MEDIUM_pidgin)])]"

definition METAPHORICAL_CONTEXTS :: "(string \<times> string list) list" where
  "METAPHORICAL_CONTEXTS = [
     (''academic'', METAPHOR_academic),
     (''entertainment'', METAPHOR_entertainment),
     (''positive'', METAPHOR_positive),
     (''figurative'', METAPHOR_figurative)]"

section \<open>The keyword scorer\<close>

text \<open>
  \<open>first_match\<close> is the loop \<open>for keyword in keywords: if keyword in message: return ...\<close>:
  it stops at the first keyword that occurs and tells whether there was one.
\<close>

fun first_match :: "string list \<Rightarrow> string \<Rightarrow> bool" where
  "first_match [] message = False"
| "first_match (keyword # keywords) message =
     (if is_in keyword message then True else first_match keywords message)"

fun check_metaphorical_context_loop :: "(string \<times> string list) list \<Rightarrow> string \<Rightarrow> bool" where
  "check_metaphorical_context_loop [] message = False"
| "check_metaphorical_context_loop ((key, keywords) # items) message =
     (if first_match keywords message then True
      else check_metaphorical_context_loop items message)"

definition check_metaphorical_context :: "string \<Rightarrow> bool" where
  "check_metaphorical_context message =
     check_metaphorical_context_loop METAPHORICAL_CONTEXTS message"

definition detect_crisis_level :: "string \<Rightarrow> risk" where
  "detect_crisis_level message =
     (if message = [] \<or> length (strip message) \<le> 3 then SAFE
      else
        let message_lower = lower message;
            is_metaphorical = check_metaphorical_context message_lower
        in
        if first_match (CRITICAL_english @ CRITICAL_pidgin) message_lower then
          (if is_metaphorical then HIGH else CRITICAL)
        else if first_match (HIGH_english @ HIGH_pidgin) message_lower then
          (if is_metaphorical then MEDIUM else HIGH)
        else if first_match (MEDIUM_english @ MEDIUM_pidgin) message_lower then
          (if is_metaphorical then SAFE else MEDIUM)
        else SAFE)"

section \<open>Lemmatization and the two passes\<close>

text \<open>
  The spaCy pipeline \<open>nlp\<close> is outside the repository: it is a parameter, which gives
  the lemma of each token of a text, or \<open>None\<close> when it raises an exception.
  \<open>lemmatize_text\<close> catches that exception and returns the text it was given.
\<close>

type_synonym analyzer = "string \<Rightarrow> string list option"

definition lemmatize_text :: "analyzer \<Rightarrow> string \<Rightarrow> string" where
  "lemmatize_text nlp text =
     (case nlp (lower text) of
        Some lemmas \<Rightarrow> join '' '' lemmas
      | None \<Rightarrow> text)"

text \<open>\<open>risk_index r\<close> is \<open>risk_levels.index(r)\<close> for
  \<open>risk_levels = ['SAFE', 'MEDIUM', 'HIGH', 'CRITICAL']\<close>.\<close>

fun risk_index :: "risk \<Rightarrow> nat" where
  "risk_index SAFE = 0"
| "risk_index MEDIUM = 1"
| "risk_index HIGH = 2"
| "risk_index CRITICAL = 3"

text \<open>
  The body of the \<open>try\<close> in \<open>detect_crisis_enhanced\<close> calls \<open>lemmatize_text\<close>, which
  handles the analyzer's exception itself, \<open>detect_crisis_level\<close> and \<open>list.index\<close> on a
  tier that is in the list: nothing in it raises, and the function falls through to
  \<open>return risk_original\<close> whenever the second pass does not return.
\<close>

definition detect_crisis_enhanced :: "analyzer \<Rightarrow> string \<Rightarrow> risk" where
  "detect_crisis_enhanced nlp message =
     (if message = [] \<or> length (strip message) < 3 then SAFE
      else
        let risk_original = detect_crisis_level message in
        if risk_original \<in> set [CRITICAL, HIGH] then risk_original
        else
          let lemmatized_message = lemmatize_text nlp message in
          if lemmatized_message \<noteq> lower message then
            let risk_lemmatized = detect_crisis_level lemmatized_message;
                idx_original = risk_index risk_original;
                idx_lemmatized = risk_index risk_lemmatized
            in
            if idx_lemmatized > idx_original then risk_lemmatized else risk_original
          else risk_original)"

section \<open>Triggers\<close>

text \<open>
  \<open>identify_triggers\<close> appends to \<open>triggers\<close> in three nested loops, over the tiers,
  the languages of a tier and the keywords of a language; each loop takes the list
  built so far and returns it extended. \<open>triggers[:5]\<close> is \<open>take 5\<close>.
\<close>

definition format_trigger :: "risk \<Rightarrow> string \<Rightarrow> string" where
  "format_trigger risk_level keyword =
     risk_str risk_level @ '': '' @ [CHR 0x27] @ keyword @ [CHR 0x27]"

fun triggers_keywords :: "risk \<Rightarrow> string list \<Rightarrow> string \<Rightarrow> string list \<Rightarrow> string list" where
  "triggers_keywords risk_level [] message_lower triggers = triggers"
| "triggers_keywords risk_level (keyword # keywords) message_lower triggers =
     triggers_keywords risk_level keywords message_lower
       (if is_in keyword message_lower
        then triggers @ [format_trigger risk_level keyword] else triggers)"

fun triggers_languages ::
  "risk \<Rightarrow> (string \<times> string list) list \<Rightarrow> string \<Rightarrow> string list \<Rightarrow> string list" where
  "triggers_languages risk_level [] message_lower triggers = triggers"
| "triggers_languages risk_level ((language, keywords) # languages) message_lower triggers =
     triggers_languages risk_level languages message_lower
       (triggers_keywords risk_level keywords message_lower triggers)"

fun triggers_levels ::
  "(risk \<times> (string \<times> string list) list) list \<Rightarrow> string \<Rightarrow> string list \<Rightarrow> string list" where
  "triggers_levels [] message_lower triggers = triggers"
| "triggers_levels ((risk_level, languages) # items) message_lower triggers =
     triggers_levels items message_lower
       (triggers_languages risk_level languages message_lower triggers)"

definition identify_triggers :: "string \<Rightarrow> string list" where
  "identify_triggers message =
     (let message_lower = lower message in
      take 5 (triggers_levels CRISIS_KEYWORDS message_lower []))"

section \<open>Fusion with the emotion signal\<close>

text \<open>
  \<open>emotion_data\<close> is a dictionary read with \<open>.get(key, default)\<close>: a field is \<open>None\<close>
  when the key is missing. The confidences are the decimal constants of the source,
  as real numbers; \<open>round2\<close> is \<open>round(x, 2)\<close>, which rounds a tie to the even digit.
\<close>

text \<open>
  The \<open>if\<close>/\<open>elif\<close>/\<open>else\<close> chain of \<open>detect_crisis_with_emotion\<close> assigns
  \<open>keyword_risk\<close> and \<open>confidence\<close>; \<open>adjust_risk\<close> returns the pair.
\<close>

definition adjust_risk :: "risk \<Rightarrow> string \<Rightarrow> real \<Rightarrow> string \<Rightarrow> risk \<times> real" where
  "adjust_risk keyword_risk primary_emotion emotion_confidence urgency =
     (if keyword_risk \<in> set [HIGH, CRITICAL] then
        (if primary_emotion \<in> set [''fear'', ''sadness''] \<and> emotion_confidence > 0.6
         then (keyword_risk, 0.9)
         else if primary_emotion = ''anger'' \<and> emotion_confidence > 0.7
         then (keyword_risk, 0.75)
         else (keyword_risk, 0.6))
      else if keyword_risk = MEDIUM then
        (if urgency = ''high'' \<and> primary_emotion \<in> set [''fear'', ''sadness'']
         then (HIGH, 0.7)
         else (keyword_risk, 0.5))
      else
        (if urgency = ''high'' \<and> primary_emotion \<in> set [''fear'', ''sadness'']
         then (MEDIUM, 0.4)
         else (keyword_risk, 0.95)))"

text \<open>
  The result and the signal are dictionaries with fixed keys: records. In
  \<open>detect_crisis_with_emotion\<close> a local variable that shares its name with a key
  carries a prime.
\<close>

record emotion_context =
  primary_emotion :: string
  emotion_confidence :: real
  urgency :: string

record crisis_assessment =
  risk_level :: risk
  confidence :: real
  triggers :: "string list"
  recommendation :: string
  emotion_context :: emotion_context

record emotion_data =
  primary_emotion :: "string option"
  confidence :: "real option"
  urgency :: "string option"

definition dict_get :: "'a option \<Rightarrow> 'a \<Rightarrow> 'a" where
  "dict_get field dflt = (case field of Some v \<Rightarrow> v | None \<Rightarrow> dflt)"

definition round2 :: "real \<Rightarrow> real" where
  "round2 x =
     (let y = x * 100; f = \<lfloor>y\<rfloor>; d = y - of_int f in
      of_int (if d < 1 / 2 then f
              else if d > 1 / 2 then f + 1
              else if even f then f else f + 1) / 100)"

fun get_risk_recommendation :: "risk \<Rightarrow> emotion_data \<Rightarrow> string" where
  "get_risk_recommendation CRITICAL emotion_data = ''IMMEDIATE_CRISIS_RESPONSE''"
| "get_risk_recommendation HIGH emotion_data = ''URGENT_SUPPORT_NEEDED''"
| "get_risk_recommendation MEDIUM emotion_data = ''ELEVATED_CONCERN''"
| "get_risk_recommendation SAFE emotion_data = ''STANDARD_THERAPEUTIC_RESPONSE''"

definition detect_crisis_with_emotion :: "analyzer \<Rightarrow> string \<Rightarrow> emotion_data \<Rightarrow> crisis_assessment" where
  "detect_crisis_with_emotion nlp message emotion_data =
     (let keyword_risk = detect_crisis_enhanced nlp message;
          primary_emotion' = dict_get (primary_emotion emotion_data) ''neutral'';
          emotion_confidence' = dict_get (confidence emotion_data) 0;
          urgency' = dict_get (urgency emotion_data) ''low'';
          triggers' = identify_triggers message;
          (keyword_risk', confidence') =
            adjust_risk keyword_risk primary_emotion' emotion_confidence' urgency';
          recommendation' = get_risk_recommendation keyword_risk' emotion_data
      in
      \<lparr>risk_level = keyword_risk',
       crisis_assessment.confidence = round2 confidence',
       triggers = triggers',
       recommendation = recommendation',
       emotion_context =
         \<lparr>emotion_context.primary_emotion = primary_emotion',
          emotion_confidence = emotion_confidence',
          emotion_context.urgency = urgency'\<rparr>\<rparr>)"

section \<open>The crisis response\<close>

text \<open>
  The response texts hold characters beyond code point 255 (a dash and a heart):
  they are given as their UTF-8 bytes.
\<close>

record resource =
  name :: string
  contact :: string
  available :: string
  type :: string

record crisis_response =
  response :: string
  resources :: "resource list"
  escalate :: bool
  immediate_action_required :: bool

definition CRITICAL_response_text :: string where
  "CRITICAL_response_text =
     ''I'm truly concerned about what you're sharing with me. Your safety and w'' @
     ''ellbeing are what matters most right now.'' @
     [CHR 0x0A, CHR 0x0A] @
     ''You don't have to face this moment alone. Help is available, and people '' @
     ''who care want to support you. Please reach out to one of the emergency s'' @
     ''ervices below'' @
     [CHR 0xE2, CHR 0x80, CHR 0x94] @
     ''they're trained to help and are available right now.'' @
     [CHR 0x0A, CHR 0x0A] @
     ''If you're in immediate danger, please call emergency services (112 or 76'' @
     ''7) right away. '' @
     [CHR 0x0A, CHR 0x0A] @
     ''We're also notifying our support team, and someone from our team may rea'' @
     ''ch out to you to check in. You're valued, and we're here for you. '' @
     [CHR 0xF0, CHR 0x9F, CHR 0x92, CHR 0x99]"

definition CRITICAL_resources :: "resource list" where
  "CRITICAL_resources = [
    \<lparr>name = ''National Emergency'', contact = ''112 or 767'',
     available = ''24/7'', type = ''emergency''\<rparr>,
    \<lparr>name = ''Mentally Aware Nigeria (MANI)'', contact = ''+2348091116264'',
     available = ''24/7'', type = ''crisis_line''\<rparr>,
    \<lparr>name = ''LUTH Psychiatry Emergency'', contact = ''+234 1 593 6394'',
     available = ''24/7'', type = ''hospital''\<rparr>,
    \<lparr>name = ''She Writes Woman Crisis Line'', contact = ''+234 813 951 3888'',
     available = ''Mon-Fri 10am-6pm'', type = ''crisis_line''\<rparr>]"

definition HIGH_response_text :: string where
  "HIGH_response_text =
     ''I hear you, and I can sense that you're going through something really d'' @
     ''ifficult right now. What you're feeling is valid and important.'' @
     [CHR 0x0A, CHR 0x0A] @
     ''The fact that you're reaching out shows strength. You don't have to hand'' @
     ''le this alone'' @
     [CHR 0xE2, CHR 0x80, CHR 0x94] @
     ''support is available, and it's okay to ask for help.'' @
     [CHR 0x0A, CHR 0x0A] @
     ''If you're feeling overwhelmed, please consider connecting with one of th'' @
     ''e resources below. They're trained professionals who understand what you'' @
     '''re going through and are ready to listen and support you.'' @
     [CHR 0x0A, CHR 0x0A] @
     ''Our team may also reach out to check in on you. You matter. '' @
     [CHR 0xF0, CHR 0x9F, CHR 0x92, CHR 0x99]"

definition HIGH_resources :: "resource list" where
  "HIGH_resources = [
    \<lparr>name = ''Mentally Aware Nigeria (MANI)'', contact = ''+234 809 210 6493'',
     available = ''24/7'', type = ''crisis_line''\<rparr>,
    \<lparr>name = ''She Writes Woman'', contact = ''+234 813 951 3888'',
     available = ''Mon-Fri 10am-6pm'', type = ''support_line''\<rparr>,
    \<lparr>name = ''The Agbeyega Care Centre'', contact = ''+234 803 333 7574'',
     available = ''By appointment'', type = ''therapy_center''\<rparr>]"

definition MEDIUM_response_text :: string where
  "MEDIUM_response_text =
     ''It sounds like you're dealing with some challenging feelings right now, '' @
     ''and I appreciate you sharing that with me. That takes courage.'' @
     [CHR 0x0A, CHR 0x0A] @
     ''Let's work through this together. I'm here to listen and support you. So'' @
     ''metimes talking through what's happening can help clarify things and mak'' @
     ''e them feel more manageable.'' @
     [CHR 0x0A, CHR 0x0A] @
     ''If you'd like additional support, there are resources available to help.'' @
     '' Remember, seeking help is a sign of strength, not weakness. '' @
     [CHR 0xF0, CHR 0x9F, CHR 0x92, CHR 0x99]"

definition MEDIUM_resources :: "resource list" where
  "MEDIUM_resources = [
    \<lparr>name = ''Mental Health Foundation Nigeria'', contact = ''+234 814 652 3537'',
     available = ''Mon-Fri 9am-5pm'', type = ''information''\<rparr>]"

fun get_crisis_response :: "risk \<Rightarrow> crisis_response option" where
  "get_crisis_response CRITICAL =
     Some \<lparr>response = CRITICAL_response_text, resources = CRITICAL_resources,
           escalate = True, immediate_action_required = True\<rparr>"
| "get_crisis_response HIGH =
     Some \<lparr>response = HIGH_response_text, resources = HIGH_resources,
           escalate = True, immediate_action_required = False\<rparr>"
| "get_crisis_response MEDIUM =
     Some \<lparr>response = MEDIUM_response_text, resources = MEDIUM_resources,
           escalate = False, immediate_action_required = False\<rparr>"
| "get_crisis_response SAFE = None"

section \<open>Notions of the specification\<close>

text \<open>
  The words of the specification that the theorems below compare the code with.
  \<open>phrases_for tier\<close> is the ordered sequence of the phrases of a tier, all dialects
  in lexicon order; \<open>tier_matches\<close> says that some phrase of the tier occurs in the
  lower-cased message; \<open>is_metaphorical\<close> that some indicator of some context category
  occurs in it. \<open>lexicon_order\<close> lists every phrase with its tier: CRITICAL, then HIGH,
  then MEDIUM, english before pidgin.
\<close>

definition phrases_for :: "risk \<Rightarrow> string list" where
  "phrases_for tier =
     concat (map snd (concat (map snd (filter (\<lambda>(t, dialects). t = tier) CRISIS_KEYWORDS))))"

definition tier_matches :: "risk \<Rightarrow> string \<Rightarrow> bool" where
  "tier_matches tier message = (\<exists>p \<in> set (phrases_for tier). is_in p (lower message))"

definition is_metaphorical :: "string \<Rightarrow> bool" where
  "is_metaphorical message =
     (\<exists>(category, indicators) \<in> set METAPHORICAL_CONTEXTS.
        \<exists>i \<in> set indicators. is_in i (lower message))"

definition lexicon_order :: "(risk \<times> string) list" where
  "lexicon_order =
     map (Pair CRITICAL) CRITICAL_english @ map (Pair CRITICAL) CRITICAL_pidgin @
     map (Pair HIGH) HIGH_english @ map (Pair HIGH) HIGH_pidgin @
     map (Pair MEDIUM) MEDIUM_english @ map (Pair MEDIUM) MEDIUM_pidgin"

text \<open>
  A phrase is well formed when it has more than three characters and neither starts
  nor ends with a space.
\<close>

definition phrase_ok :: "string \<Rightarrow> bool" where
  "phrase_ok k = (3 < length k \<and> \<not> isspace (hd k) \<and> \<not> isspace (last k))"

text \<open>
  Two analyzers for the examples. \<open>failing_analyzer\<close> raises on every text.
  \<open>example_analyzer\<close> answers on three texts with the lemmas that the comments of the
  source describe ("killing" becomes "kill", "am" becomes "be", "i" becomes "I") and
  raises on any other text.
\<close>

definition failing_analyzer :: analyzer where
  "failing_analyzer text = None"

definition example_analyzer :: analyzer where
  "example_analyzer text =
     (if text = ''i am killing myself''
      then Some [''I'', ''be'', ''kill'', ''myself'']
      else if text = ''i hate myself and i am killing myself''
      then Some [''I'', ''hate'', ''myself'', ''and'', ''I'', ''be'', ''kill'', ''myself'']
      else if text = ''i feel hopeless and i am killing myself''
      then Some [''I'', ''feel'', ''hopeless'', ''and'', ''I'', ''be'', ''kill'', ''myself'']
      else None)"

section \<open>Substrings and trimming\<close>

lemma starts_with_iff: "starts_with k s \<longleftrightarrow> (\<exists>b. s = k @ b)"
  by (induction k s rule: starts_with.induct) auto

lemma is_in_iff: "is_in k s \<longleftrightarrow> (\<exists>a b. s = a @ k @ b)"
proof (induction s)
  case Nil
  then show ?case by simp
next
  case (Cons c s)
  show ?case
  proof
    assume "is_in k (c # s)"
    then consider "starts_with k (c # s)" | "is_in k s" by auto
    then show "\<exists>a b. c # s = a @ k @ b"
    proof cases
      case 1
      then obtain b where "c # s = k @ b" by (auto simp: starts_with_iff)
      then have "c # s = [] @ k @ b" by simp
      then show ?thesis by blast
    next
      case 2
      then obtain a b where "s = a @ k @ b" using Cons.IH by blast
      then have "c # s = (c # a) @ k @ b" by simp
      then show ?thesis by blast
    qed
  next
    assume "\<exists>a b. c # s = a @ k @ b"
    then obtain a b where ab: "c # s = a @ k @ b" by blast
    show "is_in k (c # s)"
    proof (cases a)
      case Nil
      with ab have "starts_with k (c # s)" by (auto simp: starts_with_iff)
      then show ?thesis by simp
    next
      case (Cons x a')
      with ab have "s = a' @ k @ b" by simp
      then have "is_in k s" using Cons.IH by blast
      then show ?thesis by simp
    qed
  qed
qed

lemma first_match_iff: "first_match ks m \<longleftrightarrow> (\<exists>k\<in>set ks. is_in k m)"
  by (induction ks) auto

lemma dropWhile_keeps_infix:
  assumes "k \<noteq> []" "\<not> P (hd k)"
  shows "\<exists>a'. dropWhile P (a @ k @ c) = a' @ k @ c"
proof (induction a)
  case Nil
  from assms have "dropWhile P (k @ c) = k @ c" by (cases k) auto
  then show ?case by auto
next
  case (Cons y a)
  show ?case
  proof (cases "P y")
    case True
    with Cons show ?thesis by simp
  next
    case False
    then have "dropWhile P ((y # a) @ k @ c) = (y # a) @ k @ c" by simp
    then show ?thesis by blast
  qed
qed

lemma length_strip_infix:
  assumes "s = a @ k @ b" "k \<noteq> []" "\<not> isspace (hd k)" "\<not> isspace (last k)"
  shows "length k \<le> length (strip s)"
proof -
  obtain a' where a': "dropWhile isspace s = a' @ k @ b"
    using dropWhile_keeps_infix[of k isspace a b] assms(1-3) by blast
  have "rev k \<noteq> []" "\<not> isspace (hd (rev k))"
    using assms(2,4) by (simp_all add: hd_rev)
  then obtain b' where "dropWhile isspace (rev b @ rev k @ rev a') = b' @ rev k @ rev a'"
    using dropWhile_keeps_infix[of "rev k" isspace "rev b" "rev a'"] by blast
  then have "strip s = rev (b' @ rev k @ rev a')"
    by (simp add: strip_def a')
  then show ?thesis by simp
qed

lemma of_char_lower_char:
  "of_char (lower_char c) = (let n = (of_char c :: nat) in
     if (65 \<le> n \<and> n \<le> 90) \<or> (192 \<le> n \<and> n \<le> 222 \<and> n \<noteq> 215) then n + 32 else n)"
  by (auto simp: lower_char_def Let_def)

lemma isspace_lower_char: "isspace (lower_char c) = isspace c"
  unfolding isspace_def of_char_lower_char by (auto simp: Let_def)

lemma lower_char_idem: "lower_char (lower_char c) = lower_char c"
proof -
  have "(of_char (lower_char (lower_char c)) :: nat) = of_char (lower_char c)"
    unfolding of_char_lower_char by (auto simp: Let_def)
  then show ?thesis by (metis char_of_char)
qed

lemma dropWhile_isspace_lower:
  "dropWhile isspace (map lower_char s) = map lower_char (dropWhile isspace s)"
  by (induction s) (simp_all add: isspace_lower_char)

lemma strip_lower: "strip (lower s) = lower (strip s)"
  unfolding strip_def lower_def
  by (simp add: dropWhile_isspace_lower rev_map)

lemma lower_lower: "lower (lower s) = lower s"
  by (simp add: lower_def lower_char_idem)

lemma is_in_lower_length:
  assumes "is_in k (lower m)" "k \<noteq> []" "\<not> isspace (hd k)" "\<not> isspace (last k)"
  shows "length k \<le> length (strip m)"
proof -
  from assms(1) obtain a b where "lower m = a @ k @ b" by (auto simp: is_in_iff)
  from length_strip_infix[OF this assms(2-4)] show ?thesis
    by (simp add: strip_lower) (simp add: lower_def)
qed

section \<open>The scorer scans the tiers in order\<close>

lemma phrases_for_simps:
  "phrases_for CRITICAL = CRITICAL_english @ CRITICAL_pidgin"
  "phrases_for HIGH = HIGH_english @ HIGH_pidgin"
  "phrases_for MEDIUM = MEDIUM_english @ MEDIUM_pidgin"
  "phrases_for SAFE = []"
  by (simp_all add: phrases_for_def CRISIS_KEYWORDS_def)

lemma lexicon_phrase_ok:
  "list_all phrase_ok (CRITICAL_english @ CRITICAL_pidgin @ HIGH_english @ HIGH_pidgin
     @ MEDIUM_english @ MEDIUM_pidgin)"
  by code_simp

lemma phrases_for_ok: "p \<in> set (phrases_for tier) \<Longrightarrow> phrase_ok p"
  using lexicon_phrase_ok by (cases tier) (auto simp: phrases_for_simps list_all_iff)

lemma short_no_match:
  assumes "length (strip message) \<le> 3"
  shows "\<not> tier_matches tier message"
proof
  assume "tier_matches tier message"
  then obtain p where p: "p \<in> set (phrases_for tier)" "is_in p (lower message)"
    by (auto simp: tier_matches_def)
  from phrases_for_ok[OF p(1)] have ok: "3 < length p" "\<not> isspace (hd p)" "\<not> isspace (last p)"
    by (simp_all add: phrase_ok_def)
  then have "p \<noteq> []" by auto
  from is_in_lower_length[OF p(2) this ok(2,3)] ok(1) assms show False by simp
qed

lemma check_metaphorical_context_loop_iff:
  "check_metaphorical_context_loop items m \<longleftrightarrow>
     (\<exists>(key, keywords) \<in> set items. \<exists>k \<in> set keywords. is_in k m)"
  by (induction items m rule: check_metaphorical_context_loop.induct)
     (auto simp: first_match_iff)

lemma check_metaphorical_context_lower:
  "check_metaphorical_context (lower message) = is_metaphorical message"
  by (simp add: check_metaphorical_context_def is_metaphorical_def
      check_metaphorical_context_loop_iff)

lemma first_match_tier:
  "first_match (CRITICAL_english @ CRITICAL_pidgin) (lower m) = tier_matches CRITICAL m"
  "first_match (HIGH_english @ HIGH_pidgin) (lower m) = tier_matches HIGH m"
  "first_match (MEDIUM_english @ MEDIUM_pidgin) (lower m) = tier_matches MEDIUM m"
  by (simp_all only: first_match_iff tier_matches_def phrases_for_simps)

lemma detect_crisis_level_long:
  assumes "3 < length (strip message)"
  shows "detect_crisis_level message =
     (if tier_matches CRITICAL message then (if is_metaphorical message then HIGH else CRITICAL)
      else if tier_matches HIGH message then (if is_metaphorical message then MEDIUM else HIGH)
      else if tier_matches MEDIUM message then (if is_metaphorical message then SAFE else MEDIUM)
      else SAFE)"
proof -
  from assms have "message \<noteq> []" by (auto simp: strip_def)
  with assms show ?thesis
    by (simp add: detect_crisis_level_def Let_def first_match_tier
        check_metaphorical_context_lower)
qed

lemma detect_crisis_level_short:
  "length (strip message) \<le> 3 \<Longrightarrow> detect_crisis_level message = SAFE"
  by (simp add: detect_crisis_level_def)

text \<open>
  Claim C1. For every message of at least 3 trimmed characters, \<open>detect_crisis_level\<close>
  returns the tier of the scan in the order CRITICAL, HIGH, MEDIUM: a CRITICAL phrase
  gives HIGH when the message is metaphorical and CRITICAL otherwise, a HIGH phrase
  gives MEDIUM or HIGH, a MEDIUM phrase gives SAFE or MEDIUM, and no phrase gives SAFE.
  The function returns SAFE at once for a message of exactly 3 trimmed characters:
  the scan gives SAFE there as well, since every phrase is longer.
\<close>

theorem detect_crisis_level_scan:
  assumes "3 \<le> length (strip message)"
  shows "detect_crisis_level message =
     (if tier_matches CRITICAL message then (if is_metaphorical message then HIGH else CRITICAL)
      else if tier_matches HIGH message then (if is_metaphorical message then MEDIUM else HIGH)
      else if tier_matches MEDIUM message then (if is_metaphorical message then SAFE else MEDIUM)
      else SAFE)"
proof (cases "3 < length (strip message)")
  case True
  then show ?thesis by (rule detect_crisis_level_long)
next
  case False
  then have le: "length (strip message) \<le> 3" by simp
  then show ?thesis
    by (simp add: detect_crisis_level_short short_no_match)
qed

theorem detect_crisis_level_scan_witness:
  "3 \<le> length (strip ''Studying is making me want to die lol'')
   \<and> tier_matches CRITICAL ''Studying is making me want to die lol''
   \<and> is_metaphorical ''Studying is making me want to die lol''
   \<and> detect_crisis_level ''Studying is making me want to die lol'' = HIGH"
proof -
  have h: "3 \<le> length (strip ''Studying is making me want to die lol'')" by code_simp
  have t: "tier_matches CRITICAL ''Studying is making me want to die lol''" by code_simp
  have m: "is_metaphorical ''Studying is making me want to die lol''" by code_simp
  from detect_crisis_level_scan[OF h] h t m show ?thesis by simp
qed

section \<open>Fusion\<close>

lemma round2_adjust_risk:
  "round2 (snd (adjust_risk k p c u)) = snd (adjust_risk k p c u)"
  by (cases k) (simp_all add: adjust_risk_def round2_def Let_def)

lemma risk_level_fusion:
  "risk_level (detect_crisis_with_emotion nlp message e) =
     fst (adjust_risk (detect_crisis_enhanced nlp message)
       (dict_get (primary_emotion e) ''neutral'') (dict_get (confidence e) 0)
       (dict_get (urgency e) ''low''))"
  by (simp add: detect_crisis_with_emotion_def Let_def split: prod.split)

lemma confidence_fusion:
  "crisis_assessment.confidence (detect_crisis_with_emotion nlp message e) =
     round2 (snd (adjust_risk (detect_crisis_enhanced nlp message)
       (dict_get (primary_emotion e) ''neutral'') (dict_get (confidence e) 0)
       (dict_get (urgency e) ''low'')))"
  by (simp add: detect_crisis_with_emotion_def Let_def split: prod.split)

text \<open>
  Claim C2. For every message and emotion signal, the final tier and confidence of
  \<open>detect_crisis_with_emotion\<close> follow the decision table: a keyword tier HIGH or
  CRITICAL is unchanged, with confidence 0.90 when the primary emotion is fear or
  sadness with emotion confidence above 0.6, 0.75 when it is anger with emotion
  confidence above 0.7, and 0.60 otherwise; MEDIUM becomes HIGH with 0.70 exactly when
  urgency is high and the primary emotion is fear or sadness, and stays MEDIUM with
  0.50 otherwise; SAFE becomes MEDIUM with 0.40 under the same condition and stays SAFE
  with 0.95 otherwise. Missing fields of the signal read as neutral, 0 and low.
\<close>

theorem fusion_decision_table:
  fixes nlp message e
  defines "k \<equiv> detect_crisis_enhanced nlp message"
    and "p \<equiv> dict_get (primary_emotion e) ''neutral''"
    and "c \<equiv> dict_get (confidence e) 0"
    and "u \<equiv> dict_get (urgency e) ''low''"
    and "r \<equiv> detect_crisis_with_emotion nlp message e"
  shows "(k = HIGH \<or> k = CRITICAL \<longrightarrow>
            risk_level r = k \<and>
            crisis_assessment.confidence r =
              (if (p = ''fear'' \<or> p = ''sadness'') \<and> c > 0.6 then 0.90
               else if p = ''anger'' \<and> c > 0.7 then 0.75 else 0.60))
       \<and> (k = MEDIUM \<longrightarrow>
            (if u = ''high'' \<and> (p = ''fear'' \<or> p = ''sadness'')
             then risk_level r = HIGH \<and> crisis_assessment.confidence r = 0.70
             else risk_level r = MEDIUM \<and> crisis_assessment.confidence r = 0.50))
       \<and> (k = SAFE \<longrightarrow>
            (if u = ''high'' \<and> (p = ''fear'' \<or> p = ''sadness'')
             then risk_level r = MEDIUM \<and> crisis_assessment.confidence r = 0.40
             else risk_level r = SAFE \<and> crisis_assessment.confidence r = 0.95))"
  unfolding r_def risk_level_fusion confidence_fusion
  unfolding k_def[symmetric] p_def[symmetric] c_def[symmetric] u_def[symmetric]
  unfolding round2_adjust_risk
  by (cases k) (auto simp: adjust_risk_def)

theorem fusion_decision_table_witness:
  "detect_crisis_enhanced failing_analyzer ''I feel hopeless and can't cope anymore'' = MEDIUM
   \<and> risk_level (detect_crisis_with_emotion failing_analyzer
         ''I feel hopeless and can't cope anymore''
         \<lparr>primary_emotion = Some ''fear'', confidence = Some 0.78, urgency = Some ''high''\<rparr>)
       = HIGH
   \<and> crisis_assessment.confidence (detect_crisis_with_emotion failing_analyzer
         ''I feel hopeless and can't cope anymore''
         \<lparr>primary_emotion = Some ''fear'', confidence = Some 0.78, urgency = Some ''high''\<rparr>)
       = 0.70
   \<and> detect_crisis_enhanced failing_analyzer ''Having a good day today'' = SAFE
   \<and> risk_level (detect_crisis_with_emotion failing_analyzer ''Having a good day today''
         \<lparr>primary_emotion = None, confidence = None, urgency = None\<rparr>) = SAFE
   \<and> crisis_assessment.confidence (detect_crisis_with_emotion failing_analyzer
         ''Having a good day today''
         \<lparr>primary_emotion = None, confidence = None, urgency = None\<rparr>) = 0.95
   \<and> detect_crisis_enhanced failing_analyzer ''I want to kill myself'' = CRITICAL
   \<and> risk_level (detect_crisis_with_emotion failing_analyzer ''I want to kill myself''
         \<lparr>primary_emotion = Some ''anger'', confidence = Some 0.71, urgency = Some ''low''\<rparr>)
       = CRITICAL
   \<and> crisis_assessment.confidence (detect_crisis_with_emotion failing_analyzer
         ''I want to kill myself''
         \<lparr>primary_emotion = Some ''anger'', confidence = Some 0.71, urgency = Some ''low''\<rparr>)
       = 0.75"
proof -
  have k1: "detect_crisis_enhanced failing_analyzer
      ''I feel hopeless and can't cope anymore'' = MEDIUM"
    by code_simp
  have k2: "detect_crisis_enhanced failing_analyzer ''Having a good day today'' = SAFE"
    by code_simp
  have k3: "detect_crisis_enhanced failing_analyzer ''I want to kill myself'' = CRITICAL"
    by code_simp
  from k1 k2 k3
    fusion_decision_table [of failing_analyzer "''I feel hopeless and can't cope anymore''"
      "\<lparr>primary_emotion = Some ''fear'', confidence = Some 0.78, urgency = Some ''high''\<rparr>"]
    fusion_decision_table [of failing_analyzer "''Having a good day today''"
      "\<lparr>primary_emotion = None, confidence = None, urgency = None\<rparr>"]
    fusion_decision_table [of failing_analyzer "''I want to kill myself''"
      "\<lparr>primary_emotion = Some ''anger'', confidence = Some 0.71, urgency = Some ''low''\<rparr>"]
  show ?thesis by (simp add: dict_get_def)
qed

text \<open>
  Claim C4. For every keyword tier and every emotion signal, the final tier of the
  fusion differs from the keyword tier by at most one step of the order
  SAFE, MEDIUM, HIGH, CRITICAL; a SAFE keyword tier never becomes HIGH or CRITICAL.
\<close>

theorem fusion_one_step:
  "risk_index (fst (adjust_risk k p c u)) \<le> risk_index k + 1
   \<and> risk_index k \<le> risk_index (fst (adjust_risk k p c u)) + 1
   \<and> risk_index (risk_level (detect_crisis_with_emotion nlp message e))
        \<le> risk_index (detect_crisis_enhanced nlp message) + 1
   \<and> risk_index (detect_crisis_enhanced nlp message)
        \<le> risk_index (risk_level (detect_crisis_with_emotion nlp message e)) + 1
   \<and> fst (adjust_risk SAFE p c u) \<noteq> HIGH \<and> fst (adjust_risk SAFE p c u) \<noteq> CRITICAL"
proof -
  have a: "risk_index (fst (adjust_risk k p c u)) \<le> risk_index k + 1
     \<and> risk_index k \<le> risk_index (fst (adjust_risk k p c u)) + 1" for k p c u
    by (cases k) (simp_all add: adjust_risk_def)
  have b: "fst (adjust_risk SAFE p c u) \<noteq> HIGH \<and> fst (adjust_risk SAFE p c u) \<noteq> CRITICAL"
    by (simp add: adjust_risk_def)
  from a b show ?thesis unfolding risk_level_fusion by blast
qed

theorem fusion_one_step_witness:
  "risk_index (fst (adjust_risk SAFE ''fear'' 1 ''high'')) = risk_index SAFE + 1
   \<and> fst (adjust_risk SAFE ''fear'' 1 ''high'') \<noteq> HIGH"
  using fusion_one_step [of SAFE "''fear''" 1 "''high''"]
  by (simp add: adjust_risk_def)

text \<open>
  Claim C9. For every message and every emotion signal, the final tier of the fusion
  is at least the keyword tier: no emotion label, confidence or urgency downgrades it.
\<close>

theorem fusion_never_downgrades:
  "risk_index k \<le> risk_index (fst (adjust_risk k p c u))
   \<and> risk_index (detect_crisis_enhanced nlp message)
        \<le> risk_index (risk_level (detect_crisis_with_emotion nlp message e))"
proof -
  have a: "risk_index k \<le> risk_index (fst (adjust_risk k p c u))" for k p c u
    by (cases k) (simp_all add: adjust_risk_def)
  then show ?thesis unfolding risk_level_fusion by blast
qed

theorem fusion_never_downgrades_witness:
  "risk_index MEDIUM \<le> risk_index (fst (adjust_risk MEDIUM ''joy'' 1 ''low''))
   \<and> fst (adjust_risk MEDIUM ''joy'' 1 ''low'') = MEDIUM"
  using fusion_never_downgrades [of MEDIUM "''joy''" 1 "''low''"]
  by (simp add: adjust_risk_def)

section \<open>The trigger list\<close>

lemma triggers_keywords_eq:
  "triggers_keywords r ks ml acc = acc @ map (format_trigger r) (filter (\<lambda>k. is_in k ml) ks)"
  by (induction ks arbitrary: acc) simp_all

lemma triggers_languages_eq:
  "triggers_languages r ls ml acc =
     acc @ concat (map (\<lambda>(l, ks). map (format_trigger r) (filter (\<lambda>k. is_in k ml) ks)) ls)"
  by (induction ls arbitrary: acc) (auto simp: triggers_keywords_eq)

lemma triggers_levels_eq:
  "triggers_levels items ml acc =
     acc @ concat (map (\<lambda>(r, ls).
       concat (map (\<lambda>(l, ks). map (format_trigger r) (filter (\<lambda>k. is_in k ml) ks)) ls)) items)"
  by (induction items arbitrary: acc) (auto simp: triggers_languages_eq)

lemma tagged_filter:
  "map (\<lambda>(t, p). format_trigger t p) (filter (\<lambda>(t, p). is_in p ml) (map (Pair r) ks)) =
     map (format_trigger r) (filter (\<lambda>k. is_in k ml) ks)"
  by (induction ks) simp_all

lemma identify_triggers_lexicon:
  "identify_triggers message =
     take 5 (map (\<lambda>(t, p). format_trigger t p)
       (filter (\<lambda>(t, p). is_in p (lower message)) lexicon_order))"
  by (simp add: identify_triggers_def Let_def triggers_levels_eq CRISIS_KEYWORDS_def
      lexicon_order_def tagged_filter)

lemma lexicon_order_phrases: "(t, p) \<in> set lexicon_order \<Longrightarrow> p \<in> set (phrases_for t)"
  by (auto simp: lexicon_order_def phrases_for_simps)

text \<open>
  Claim C6. For every message, the list of \<open>identify_triggers\<close> has at most 5
  elements, each of the form \<open><tier>: '<phrase>'\<close>, and they are the first matches
  of a scan of every tier and dialect in lexicon order (CRITICAL, then HIGH, then
  MEDIUM; english before pidgin) that does not stop at a match.
\<close>

theorem identify_triggers_first_five:
  "identify_triggers message =
     take 5 (map (\<lambda>(tier, phrase). risk_str tier @ '': '' @ [CHR 0x27] @ phrase @ [CHR 0x27])
       (filter (\<lambda>(tier, phrase). is_in phrase (lower message)) lexicon_order))
   \<and> length (identify_triggers message) \<le> 5
   \<and> (\<forall>x \<in> set (identify_triggers message). \<exists>(tier, phrase) \<in> set lexicon_order.
         is_in phrase (lower message)
         \<and> x = risk_str tier @ '': '' @ [CHR 0x27] @ phrase @ [CHR 0x27])"
proof -
  have eq: "identify_triggers message =
     take 5 (map (\<lambda>(tier, phrase). risk_str tier @ '': '' @ [CHR 0x27] @ phrase @ [CHR 0x27])
       (filter (\<lambda>(tier, phrase). is_in phrase (lower message)) lexicon_order))"
    unfolding identify_triggers_lexicon format_trigger_def ..
  have len: "length (identify_triggers message) \<le> 5"
    by (simp add: identify_triggers_def Let_def)
  have "\<exists>(tier, phrase) \<in> set lexicon_order. is_in phrase (lower message)
         \<and> x = risk_str tier @ '': '' @ [CHR 0x27] @ phrase @ [CHR 0x27]"
    if "x \<in> set (identify_triggers message)" for x
  proof -
    from that have "x \<in> set (map (\<lambda>(t, p). format_trigger t p)
       (filter (\<lambda>(t, p). is_in p (lower message)) lexicon_order))"
      unfolding identify_triggers_lexicon by (rule in_set_takeD)
    then show ?thesis by (auto simp: format_trigger_def)
  qed
  with eq len show ?thesis by blast
qed

theorem identify_triggers_first_five_witness:
  "identify_triggers ''I want to die, I hate myself, no hope, give up, tired of life, i don tire'' =
     [''CRITICAL: 'want to die'' @ [CHR 0x27], ''HIGH: 'hate myself'' @ [CHR 0x27],
      ''HIGH: 'no hope'' @ [CHR 0x27], ''MEDIUM: 'give up'' @ [CHR 0x27],
      ''MEDIUM: 'tired of life'' @ [CHR 0x27]]"
proof -
  have l: "lower ''I want to die, I hate myself, no hope, give up, tired of life, i don tire'' =
      ''i want to die, i hate myself, no hope, give up, tired of life, i don tire''"
    by code_simp
  have "take 5 (map (\<lambda>(tier, phrase). risk_str tier @ '': '' @ [CHR 0x27] @ phrase @ [CHR 0x27])
       (filter (\<lambda>(tier, phrase). is_in phrase
          ''i want to die, i hate myself, no hope, give up, tired of life, i don tire'')
        lexicon_order)) =
     [''CRITICAL: 'want to die'' @ [CHR 0x27], ''HIGH: 'hate myself'' @ [CHR 0x27],
      ''HIGH: 'no hope'' @ [CHR 0x27], ''MEDIUM: 'give up'' @ [CHR 0x27],
      ''MEDIUM: 'tired of life'' @ [CHR 0x27]]"
    by code_simp
  with l identify_triggers_first_five
    [of "''I want to die, I hate myself, no hope, give up, tired of life, i don tire''"]
  show ?thesis by simp
qed

lemma identify_triggers_short:
  assumes "length (strip message) \<le> 3"
  shows "identify_triggers message = []"
proof -
  have "filter (\<lambda>(t, p). is_in p (lower message)) lexicon_order = []"
  proof -
    have "\<not> is_in p (lower message)" if "(t, p) \<in> set lexicon_order" for t p
      using short_no_match[OF assms, of t] lexicon_order_phrases[OF that]
      by (auto simp: tier_matches_def)
    then show ?thesis by (auto simp: filter_empty_conv)
  qed
  then show ?thesis by (simp add: identify_triggers_lexicon)
qed

text \<open>
  Claim C5. For every message whose trimmed length is less than 3 (the empty message
  too), \<open>detect_crisis_enhanced\<close> returns SAFE, whatever the analyzer and the
  lexicon phrases are, and the trigger list of \<open>identify_triggers\<close> is empty.
\<close>

theorem short_message_safe:
  assumes "length (strip message) < 3"
  shows "detect_crisis_enhanced nlp message = SAFE \<and> identify_triggers message = []"
  using assms identify_triggers_short[of message]
  by (simp add: detect_crisis_enhanced_def)

theorem short_message_safe_witness:
  "length (strip ''  ok  '') < 3
   \<and> detect_crisis_enhanced example_analyzer ''  ok  '' = SAFE
   \<and> identify_triggers ''  ok  '' = []"
proof -
  have h: "length (strip ''  ok  '') < 3" by code_simp
  from short_message_safe[OF h, of example_analyzer] h show ?thesis by simp
qed

section \<open>The two passes\<close>

lemma detect_crisis_level_lower: "detect_crisis_level (lower m) = detect_crisis_level m"
proof -
  have "length (strip (lower m)) = length (strip m)"
    by (simp add: strip_lower) (simp add: lower_def)
  moreover have "(lower m = []) = (m = [])" by (simp add: lower_def)
  ultimately show ?thesis by (simp add: detect_crisis_level_def lower_lower)
qed

lemma enhanced_ge_raw:
  "risk_index (detect_crisis_level m) \<le> risk_index (detect_crisis_enhanced nlp m)"
proof (cases "m = [] \<or> length (strip m) < 3")
  case True
  then have "length (strip m) \<le> 3" by (auto simp: strip_def)
  then have "detect_crisis_level m = SAFE" by (rule detect_crisis_level_short)
  then show ?thesis by simp
next
  case False
  then show ?thesis by (simp add: detect_crisis_enhanced_def Let_def)
qed

text \<open>
  Claim C3. For every message, the tier of \<open>detect_crisis_enhanced\<close> is at least
  the tier of the raw pass alone (\<open>detect_crisis_level\<close> on the message), and
  combining the two passes never gives a less severe tier than either pass alone.

  The comparison with the raw pass holds (\<open>enhanced_ge_raw\<close>). The comparison with
  the lemmatized pass does not: when the raw pass returns HIGH the function returns
  at once and the lemmatized pass is not run. With an analyzer that reduces
  "am killing" to "be kill", the message "I hate myself and I am killing myself" is
  HIGH for \<open>detect_crisis_enhanced\<close> and CRITICAL for the lemmatized pass alone.
  The docstring of the function promises the highest risk level found from both
  passes, and the path of a raw MEDIUM does take the maximum: the same lemmatized
  phrase raises "I feel hopeless and I am killing myself" to CRITICAL.
\<close>

theorem enhanced_below_lemmatized_pass:
  "detect_crisis_enhanced example_analyzer ''I hate myself and I am killing myself'' = HIGH
   \<and> detect_crisis_level
       (lemmatize_text example_analyzer ''I hate myself and I am killing myself'') = CRITICAL
   \<and> risk_index (detect_crisis_enhanced example_analyzer
         ''I hate myself and I am killing myself'')
       < risk_index (detect_crisis_level
           (lemmatize_text example_analyzer ''I hate myself and I am killing myself''))
   \<and> detect_crisis_level ''I feel hopeless and I am killing myself'' = MEDIUM
   \<and> detect_crisis_enhanced example_analyzer
       ''I feel hopeless and I am killing myself'' = CRITICAL"
proof -
  have a: "detect_crisis_enhanced example_analyzer
      ''I hate myself and I am killing myself'' = HIGH"
    by code_simp
  have b: "detect_crisis_level
      (lemmatize_text example_analyzer ''I hate myself and I am killing myself'') = CRITICAL"
    by code_simp
  have c: "detect_crisis_level ''I feel hopeless and I am killing myself'' = MEDIUM"
    by code_simp
  have d: "detect_crisis_enhanced example_analyzer
      ''I feel hopeless and I am killing myself'' = CRITICAL"
    by code_simp
  from a b c d show ?thesis by simp
qed

text \<open>
  Claim C8. A failure of the analyzer is never fatal: \<open>lemmatize_text\<close> then returns
  the text it was given, unchanged, and \<open>detect_crisis_enhanced\<close> returns the tier of
  the raw pass. Both functions are total, so every message yields a tier.
\<close>

theorem analyzer_failure_not_fatal:
  assumes "nlp (lower message) = None"
  shows "lemmatize_text nlp message = message
     \<and> detect_crisis_enhanced nlp message = detect_crisis_level message"
proof -
  from assms have l: "lemmatize_text nlp message = message"
    by (simp add: lemmatize_text_def)
  show ?thesis
  proof (cases "message = [] \<or> length (strip message) < 3")
    case True
    then have "length (strip message) \<le> 3" by (auto simp: strip_def)
    then have "detect_crisis_level message = SAFE" by (rule detect_crisis_level_short)
    with True l show ?thesis by (simp add: detect_crisis_enhanced_def)
  next
    case False
    with l show ?thesis by (simp add: detect_crisis_enhanced_def Let_def)
  qed
qed

theorem analyzer_failure_not_fatal_witness:
  "failing_analyzer (lower ''I feel Hopeless today'') = None
   \<and> lemmatize_text failing_analyzer ''I feel Hopeless today'' = ''I feel Hopeless today''
   \<and> detect_crisis_enhanced failing_analyzer ''I feel Hopeless today'' = MEDIUM"
proof -
  have h: "failing_analyzer (lower ''I feel Hopeless today'') = None"
    by (simp add: failing_analyzer_def)
  have r: "detect_crisis_level ''I feel Hopeless today'' = MEDIUM" by code_simp
  from analyzer_failure_not_fatal [of failing_analyzer "''I feel Hopeless today''"] h r
  show ?thesis by simp
qed

text \<open>
  Claim C10. \<open>identify_triggers\<close> scans the raw message only, not its lemmatized form:
  for the message "I am killing myself", whose CRITICAL phrase "kill myself" appears
  only after lemmatization, \<open>detect_crisis_with_emotion\<close> returns the risk level
  CRITICAL together with an empty list of triggers, whatever the emotion signal is.
\<close>

theorem critical_with_no_trigger:
  assumes "nlp ''i am killing myself'' = Some [''I'', ''be'', ''kill'', ''myself'']"
  shows "risk_level (detect_crisis_with_emotion nlp ''I am killing myself'' e) = CRITICAL
     \<and> triggers (detect_crisis_with_emotion nlp ''I am killing myself'' e) = []"
proof -
  have lw: "lower ''I am killing myself'' = ''i am killing myself''" by code_simp
  have g: "\<not> (''I am killing myself'' = [] \<or> length (strip ''I am killing myself'') < 3)"
    by code_simp
  have raw: "detect_crisis_level ''I am killing myself'' = SAFE" by code_simp
  have lem: "lemmatize_text nlp ''I am killing myself'' = ''I be kill myself''"
    using assms by (simp add: lemmatize_text_def lw)
  have ne: "''I be kill myself'' \<noteq> ''i am killing myself''" by simp
  have sec: "detect_crisis_level ''I be kill myself'' = CRITICAL" by code_simp
  have k: "detect_crisis_enhanced nlp ''I am killing myself'' = CRITICAL"
    unfolding detect_crisis_enhanced_def Let_def lem lw raw sec using g ne by simp
  have t: "identify_triggers ''I am killing myself'' = []" by code_simp
  have "risk_level (detect_crisis_with_emotion nlp ''I am killing myself'' e) = CRITICAL"
    by (simp add: risk_level_fusion k adjust_risk_def)
  moreover have "triggers (detect_crisis_with_emotion nlp ''I am killing myself'' e) = []"
    by (simp add: detect_crisis_with_emotion_def Let_def t split: prod.split)
  ultimately show ?thesis by simp
qed

theorem critical_with_no_trigger_witness:
  "example_analyzer ''i am killing myself'' = Some [''I'', ''be'', ''kill'', ''myself'']
   \<and> risk_level (detect_crisis_with_emotion example_analyzer ''I am killing myself''
         \<lparr>primary_emotion = Some ''sadness'', confidence = Some 0.8, urgency = Some ''high''\<rparr>)
       = CRITICAL
   \<and> triggers (detect_crisis_with_emotion example_analyzer ''I am killing myself''
         \<lparr>primary_emotion = Some ''sadness'', confidence = Some 0.8, urgency = Some ''high''\<rparr>)
       = []"
proof -
  have h: "example_analyzer ''i am killing myself'' = Some [''I'', ''be'', ''kill'', ''myself'']"
    by (simp add: example_analyzer_def)
  from critical_with_no_trigger [of example_analyzer] h show ?thesis by simp
qed

section \<open>The response bundle\<close>

text \<open>
  Claim C7. \<open>get_crisis_response\<close> returns no bundle for SAFE and, for each of
  CRITICAL, HIGH and MEDIUM, a bundle with a fixed message and a fixed list of
  resources; \<open>escalate\<close> is true exactly for CRITICAL and HIGH and
  \<open>immediate_action_required\<close> exactly for CRITICAL.
\<close>

theorem get_crisis_response_table:
  "get_crisis_response SAFE = None
   \<and> get_crisis_response CRITICAL =
       Some \<lparr>response = CRITICAL_response_text, resources = CRITICAL_resources,
             escalate = True, immediate_action_required = True\<rparr>
   \<and> get_crisis_response HIGH =
       Some \<lparr>response = HIGH_response_text, resources = HIGH_resources,
             escalate = True, immediate_action_required = False\<rparr>
   \<and> get_crisis_response MEDIUM =
       Some \<lparr>response = MEDIUM_response_text, resources = MEDIUM_resources,
             escalate = False, immediate_action_required = False\<rparr>
   \<and> (\<forall>tier. (get_crisis_response tier = None) = (tier = SAFE))
   \<and> (\<forall>tier bundle. get_crisis_response tier = Some bundle \<longrightarrow>
         escalate bundle = (tier = CRITICAL \<or> tier = HIGH)
         \<and> immediate_action_required bundle = (tier = CRITICAL))"
proof -
  have a: "(get_crisis_response tier = None) = (tier = SAFE)" for tier
    by (cases tier) simp_all
  have b: "escalate r = (tier = CRITICAL \<or> tier = HIGH)
      \<and> immediate_action_required r = (tier = CRITICAL)"
    if "get_crisis_response tier = Some r" for tier r
    using that by (cases tier) auto
  from a b show ?thesis by simp
qed

theorem get_crisis_response_table_witness:
  "\<exists>bundle. get_crisis_response HIGH = Some bundle
     \<and> escalate bundle \<and> \<not> immediate_action_required bundle
     \<and> length (resources bundle) = 3"
  using get_crisis_response_table by (simp add: HIGH_resources_def)

end
